theory Spec2Isabelle
  imports Complex_Main "HOL-Library.Log_Nat"
begin

section \<open>Python floats\<close>

text \<open>
  The calculation in \<^verbatim>\<open>sky_temperature.py\<close> works on Python floats, which are IEEE 754
  binary64 numbers. A float is a finite real, negative zero, an infinity or a NaN;
  \<open>Fin 0\<close> is \<open>+0.0\<close>. The type is wider than the set of binary64 numbers (any real may
  stand under \<open>Fin\<close>), but every operation below rounds its result to binary64, so
  whatever holds for all values of the type holds for all floats. The sign bit and the
  payload of a NaN are not represented: they differ between platforms, and a NaN is
  read as having a clear sign bit, as \<^verbatim>\<open>float('nan')\<close> has.
\<close>

datatype pyfloat = Fin real | NegZero | PInf | NInf | NaN

text \<open>The exceptions the calculation can meet. \<open>ComplexResult\<close> is not an exception:
  it stands for \<^verbatim>\<open>**\<close> leaving the floats, which Python does for a negative base and a
  fractional exponent.\<close>

datatype error = OverflowError | ZeroDivisionError | ValueError | ComplexResult

subsection \<open>Rounding to binary64\<close>

text \<open>Round half to even, of a non-negative real to an integer.\<close>

definition rhe :: "real \<Rightarrow> int" where
  "rhe y = (let f = \<lfloor>y\<rfloor>; r = y - of_int f in
            if r < 1/2 then f else if 1/2 < r then f + 1 else if even f then f else f + 1)"

text \<open>The binary exponent \<open>e\<close> of a positive real: \<open>2^e \<le> m < 2^(e+1)\<close>.\<close>

definition expo :: "real \<Rightarrow> int" where
  "expo m = (if 1 \<le> m then int (floorlog 2 (nat \<lfloor>m\<rfloor>)) - 1
             else - int (floorlog 2 (nat \<lceil>1 / m\<rceil> - 1)))"

definition pow2 :: "int \<Rightarrow> real" where
  "pow2 k = (if 0 \<le> k then 2 ^ nat k else 1 / 2 ^ nat (- k))"

text \<open>
  Round to nearest, ties to even, of a magnitude \<open>m \<ge> 0\<close>. Below \<open>2^-1022\<close> the
  binary64 numbers are spaced \<open>2^-1074\<close> apart (subnormals, and zero); from there on a
  number with exponent \<open>e\<close> has 52 fraction bits, so the spacing is \<open>2^(e-52)\<close>. A result
  of \<open>2^1024\<close> or more does not exist in binary64: \<open>None\<close> is overflow.
\<close>

definition rnd_mag :: "real \<Rightarrow> real option" where
  "rnd_mag m =
     (if m < 1 / 2 ^ 1022 then Some (of_int (rhe (m * 2 ^ 1074)) / 2 ^ 1074)
      else if 2 ^ 1024 \<le> m then None
      else (let q = pow2 (expo m - 52); r = of_int (rhe (m / q)) * q
            in if 2 ^ 1024 \<le> r then None else Some r))"

fun is_finite :: "pyfloat \<Rightarrow> bool" where
  "is_finite (Fin r) = True"
| "is_finite NegZero = True"
| "is_finite PInf = False"
| "is_finite NInf = False"
| "is_finite NaN = False"

fun fval :: "pyfloat \<Rightarrow> real" where
  "fval (Fin r) = r"
| "fval NegZero = 0"
| "fval PInf = 0"
| "fval NInf = 0"
| "fval NaN = 0"

fun signbit :: "pyfloat \<Rightarrow> bool" where
  "signbit (Fin r) = (r < 0)"
| "signbit NegZero = True"
| "signbit PInf = False"
| "signbit NInf = True"
| "signbit NaN = False"

text \<open>A float from its sign bit and its magnitude.\<close>

definition mk_fin :: "bool \<Rightarrow> real \<Rightarrow> pyfloat" where
  "mk_fin s m = (if m = 0 then (if s then NegZero else Fin 0) else Fin (if s then - m else m))"

definition mk_inf :: "bool \<Rightarrow> pyfloat" where
  "mk_inf s = (if s then NInf else PInf)"

definition rnd :: "bool \<Rightarrow> real \<Rightarrow> pyfloat" where
  "rnd s m = (case rnd_mag m of None \<Rightarrow> mk_inf s | Some r \<Rightarrow> mk_fin s r)"

definition rnd_real :: "real \<Rightarrow> pyfloat" where
  "rnd_real x = rnd (x < 0) \<bar>x\<bar>"

text \<open>A float literal of the source, or a float read from a decimal: the nearest float.\<close>

definition lit :: "real \<Rightarrow> pyfloat" where
  "lit x = rnd_real x"

subsection \<open>Arithmetic and comparison\<close>

fun fneg :: "pyfloat \<Rightarrow> pyfloat" where
  "fneg (Fin r) = (if r = 0 then NegZero else Fin (- r))"
| "fneg NegZero = Fin 0"
| "fneg PInf = NInf"
| "fneg NInf = PInf"
| "fneg NaN = NaN"

text \<open>Python's \<^verbatim>\<open>abs\<close>.\<close>

fun fabs :: "pyfloat \<Rightarrow> pyfloat" where
  "fabs (Fin r) = Fin \<bar>r\<bar>"
| "fabs NegZero = Fin 0"
| "fabs PInf = PInf"
| "fabs NInf = PInf"
| "fabs NaN = NaN"

text \<open>
  \<^verbatim>\<open>a + b\<close>. An exact sum of zero is \<open>+0.0\<close> unless both operands are negative
  (which for a zero sum means both are \<open>-0.0\<close>). Float addition never raises.
\<close>

definition fadd :: "pyfloat \<Rightarrow> pyfloat \<Rightarrow> pyfloat" where
  "fadd a b =
     (if a = NaN \<or> b = NaN then NaN
      else if a = PInf then (if b = NInf then NaN else PInf)
      else if a = NInf then (if b = PInf then NaN else NInf)
      else if b = PInf \<or> b = NInf then b
      else if fval a + fval b = 0 then (if signbit a \<and> signbit b then NegZero else Fin 0)
      else rnd_real (fval a + fval b))"

text \<open>\<^verbatim>\<open>a - b\<close>, which in IEEE 754 is \<open>a + (-b)\<close>.\<close>

definition fsub :: "pyfloat \<Rightarrow> pyfloat \<Rightarrow> pyfloat" where
  "fsub a b = fadd a (fneg b)"

text \<open>\<^verbatim>\<open>a * b\<close>: the sign is the exclusive or of the signs; zero times infinity is NaN.\<close>

definition fmul :: "pyfloat \<Rightarrow> pyfloat \<Rightarrow> pyfloat" where
  "fmul a b =
     (if a = NaN \<or> b = NaN then NaN
      else if is_finite a \<and> is_finite b then rnd (signbit a \<noteq> signbit b) (\<bar>fval a\<bar> * \<bar>fval b\<bar>)
      else if (is_finite a \<and> fval a = 0) \<or> (is_finite b \<and> fval b = 0) then NaN
      else mk_inf (signbit a \<noteq> signbit b))"

text \<open>
  \<^verbatim>\<open>a / d\<close> for a float literal \<open>d\<close> that is finite and not zero. Python's division
  raises ZeroDivisionError for a zero divisor only, and every division of the source
  has the divisor \<^verbatim>\<open>10.0\<close>, \<^verbatim>\<open>100.0\<close> or \<^verbatim>\<open>1000.0\<close>, so the quotient is a total
  function of the dividend.
\<close>

definition fdivc :: "pyfloat \<Rightarrow> real \<Rightarrow> pyfloat" where
  "fdivc a d =
     (if a = NaN then NaN
      else if is_finite a then rnd (signbit a \<noteq> (d < 0)) (\<bar>fval a\<bar> / \<bar>d\<bar>)
      else mk_inf (signbit a \<noteq> (d < 0)))"

text \<open>\<^verbatim>\<open>a < b\<close>, \<^verbatim>\<open>a > b\<close>, \<^verbatim>\<open>a <= b\<close>, \<^verbatim>\<open>a == b\<close>: all false when an operand is NaN;
  the two zeros compare equal.\<close>

definition flt :: "pyfloat \<Rightarrow> pyfloat \<Rightarrow> bool" where
  "flt a b = (a \<noteq> NaN \<and> b \<noteq> NaN \<and> a \<noteq> PInf \<and> b \<noteq> NInf \<and>
              (a = NInf \<or> b = PInf \<or> fval a < fval b))"

definition fgt :: "pyfloat \<Rightarrow> pyfloat \<Rightarrow> bool" where
  "fgt a b = flt b a"

definition fle :: "pyfloat \<Rightarrow> pyfloat \<Rightarrow> bool" where
  "fle a b = (a \<noteq> NaN \<and> b \<noteq> NaN \<and> \<not> flt b a)"

definition feq :: "pyfloat \<Rightarrow> pyfloat \<Rightarrow> bool" where
  "feq a b = (a \<noteq> NaN \<and> b \<noteq> NaN \<and> \<not> flt a b \<and> \<not> flt b a)"

text \<open>The truth value of a float in \<^verbatim>\<open>if x:\<close>: false for the two zeros only.\<close>

definition truthy :: "pyfloat \<Rightarrow> bool" where
  "truthy x = (\<not> (is_finite x \<and> fval x = 0))"

subsection \<open>The \<^verbatim>\<open>math\<close> module and the power operator\<close>

text \<open>
  \<^verbatim>\<open>math.copysign(x, y)\<close>: the magnitude of \<open>x\<close> with the sign bit of \<open>y\<close>; the sign
  bit of \<open>-0.0\<close> is set.
\<close>

definition copysign :: "pyfloat \<Rightarrow> pyfloat \<Rightarrow> pyfloat" where
  "copysign x y = (if signbit y then fneg (fabs x) else fabs x)"

text \<open>
  The library functions \<^verbatim>\<open>exp\<close>, \<^verbatim>\<open>log10\<close> and \<^verbatim>\<open>pow\<close> are taken as correctly
  rounded. A platform's library may differ from that in the last bit; the results at
  concrete inputs used below (overflow, underflow to zero, \<open>log10\<close> at a power of ten) do
  not depend on it.

  \<^verbatim>\<open>math.exp(x)\<close>: raises OverflowError when the result of a finite argument is too
  large; an underflow returns zero without an error; \<^verbatim>\<open>exp(inf)\<close> is \<^verbatim>\<open>inf\<close> and
  \<^verbatim>\<open>exp(-inf)\<close> is \<^verbatim>\<open>0.0\<close>.
\<close>

definition py_exp :: "pyfloat \<Rightarrow> error + pyfloat" where
  "py_exp x =
     (if x = NaN then Inr NaN
      else if x = PInf then Inr PInf
      else if x = NInf then Inr (Fin 0)
      else (case rnd_mag (exp (fval x)) of
              None \<Rightarrow> Inl OverflowError
            | Some r \<Rightarrow> Inr (Fin r)))"

text \<open>\<^verbatim>\<open>math.log10(x)\<close>: raises ValueError for a zero or negative argument.\<close>

definition py_log10 :: "pyfloat \<Rightarrow> error + pyfloat" where
  "py_log10 x =
     (if x = NaN then Inr NaN
      else if x = PInf then Inr PInf
      else if x = NInf then Inl ValueError
      else if 0 < fval x then Inr (rnd_real (log 10 (fval x)))
      else Inl ValueError)"

definition is_odd_integer :: "real \<Rightarrow> bool" where
  "is_odd_integer r = (of_int \<lfloor>r\<rfloor> = r \<and> odd \<lfloor>r\<rfloor>)"

text \<open>
  \<^verbatim>\<open>iv ** iw\<close> on floats, in the order of the cases of CPython's \<^verbatim>\<open>float_pow\<close>:
  a zero exponent; a NaN base; a NaN exponent; an infinite exponent; an infinite base;
  a zero base, which raises ZeroDivisionError for a negative exponent; a negative base,
  which leaves the floats for a fractional exponent; a base of magnitude one; and the
  library's \<^verbatim>\<open>pow\<close>, whose overflow raises OverflowError and whose underflow is zero.
\<close>

definition py_pow :: "pyfloat \<Rightarrow> pyfloat \<Rightarrow> error + pyfloat" where
  "py_pow iv iw =
     (if is_finite iw \<and> fval iw = 0 then Inr (Fin 1)
      else if iv = NaN then Inr NaN
      else if iw = NaN then Inr (if iv = Fin 1 then Fin 1 else NaN)
      else if iw = PInf \<or> iw = NInf then
        (if fabs iv = Fin 1 then Inr (Fin 1)
         else if (iw = PInf) = flt (Fin 1) (fabs iv) then Inr PInf
         else Inr (Fin 0))
      else if iv = PInf \<or> iv = NInf then
        (if 0 < fval iw then Inr (if is_odd_integer (fval iw) then iv else PInf)
         else Inr (if is_odd_integer (fval iw) \<and> iv = NInf then NegZero else Fin 0))
      else if fval iv = 0 then
        (if fval iw < 0 then Inl ZeroDivisionError
         else Inr (if is_odd_integer (fval iw) then iv else Fin 0))
      else if fval iv < 0 \<and> of_int \<lfloor>fval iw\<rfloor> \<noteq> fval iw then Inl ComplexResult
      else if \<bar>fval iv\<bar> = 1 then
        Inr (Fin (if fval iv < 0 \<and> is_odd_integer (fval iw) then - 1 else 1))
      else (case rnd_mag (\<bar>fval iv\<bar> powr fval iw) of
              None \<Rightarrow> Inl OverflowError
            | Some r \<Rightarrow> Inr (mk_fin (fval iv < 0 \<and> is_odd_integer (fval iw)) r)))"

section \<open>The drift correction\<close>

text \<open>The coefficients \<^verbatim>\<open>K1\<close> to \<^verbatim>\<open>K7\<close> that \<^verbatim>\<open>_HasCoeffs\<close> asks of its argument.\<close>

record HasCoeffs =
  K1 :: pyfloat
  K2 :: pyfloat
  K3 :: pyfloat
  K4 :: pyfloat
  K5 :: pyfloat
  K6 :: pyfloat
  K7 :: pyfloat

text \<open>\<^verbatim>\<open>try: ... except OverflowError: term2 = 0.0\<close>: only this exception is caught.\<close>

definition except_OverflowError :: "error + pyfloat \<Rightarrow> pyfloat \<Rightarrow> error + pyfloat" where
  "except_OverflowError r v =
     (case r of Inl e \<Rightarrow> (if e = OverflowError then Inr v else Inl e) | Inr x \<Rightarrow> Inr x)"

text \<open>The local variables of \<^verbatim>\<open>_td\<close>, in the order of the source.\<close>

definition td_term1 :: "pyfloat \<Rightarrow> HasCoeffs \<Rightarrow> pyfloat" where
  "td_term1 ta c = fmul (fdivc (K1 c) 100) (fsub ta (fdivc (K2 c) 10))"

definition td_power :: "pyfloat \<Rightarrow> HasCoeffs \<Rightarrow> error + pyfloat" where
  "td_power ta c =
     (case py_exp (fmul (fdivc (K4 c) 1000) ta) of
        Inl e \<Rightarrow> Inl e
      | Inr ex \<Rightarrow> py_pow ex (fdivc (K5 c) 100))"

definition td_term2 :: "pyfloat \<Rightarrow> HasCoeffs \<Rightarrow> error + pyfloat" where
  "td_term2 ta c =
     (if truthy (K3 c) then
        except_OverflowError
          (case td_power ta c of
             Inl e \<Rightarrow> Inl e
           | Inr p \<Rightarrow> Inr (fmul (fdivc (K3 c) 100) p))
          (Fin 0)
      else Inr (Fin 0))"

definition td_delta :: "pyfloat \<Rightarrow> HasCoeffs \<Rightarrow> pyfloat" where
  "td_delta ta c = fabs (fsub (fdivc (K2 c) 10) ta)"

definition td_t67 :: "pyfloat \<Rightarrow> HasCoeffs \<Rightarrow> error + pyfloat" where
  "td_t67 ta c =
     (let delta = td_delta ta c in
      if flt delta (Fin 1) then Inr (copysign delta (K6 c))
      else (case py_log10 delta of
              Inl e \<Rightarrow> Inl e
            | Inr lg \<Rightarrow>
                Inr (fmul (fmul (fdivc (K6 c) 10) (copysign (Fin 1) (fsub ta (fdivc (K2 c) 10))))
                          (fadd lg (fdivc (K7 c) 100)))))"

text \<open>\<^verbatim>\<open>_td(ta, c)\<close>: \<^verbatim>\<open>term1 + term2 + t67\<close>, added from the left.\<close>

definition td :: "pyfloat \<Rightarrow> HasCoeffs \<Rightarrow> error + pyfloat" where
  "td ta c =
     (case td_term2 ta c of
        Inl e \<Rightarrow> Inl e
      | Inr term2 \<Rightarrow>
          (case td_t67 ta c of
             Inl e \<Rightarrow> Inl e
           | Inr t67 \<Rightarrow> Inr (fadd (fadd (td_term1 ta c) term2) t67)))"

text \<open>\<^verbatim>\<open>tsky(ts, ta, coeffs)\<close>: \<^verbatim>\<open>ts - _td(ta, coeffs)\<close>.\<close>

definition tsky :: "pyfloat \<Rightarrow> pyfloat \<Rightarrow> HasCoeffs \<Rightarrow> error + pyfloat" where
  "tsky ts ta coeffs = (case td ta coeffs of Inl e \<Rightarrow> Inl e | Inr d \<Rightarrow> Inr (fsub ts d))"

section \<open>The cloud classifier\<close>

datatype CloudState = CLEAR | CLOUDY | VERY_CLOUDY

text \<open>\<^verbatim>\<open>CloudState\<close> is an \<^verbatim>\<open>IntEnum\<close>: its members are ordered by their values.\<close>

fun state_value :: "CloudState \<Rightarrow> int" where
  "state_value CLEAR = 0"
| "state_value CLOUDY = 1"
| "state_value VERY_CLOUDY = 2"

definition classify_cloud_state :: "pyfloat \<Rightarrow> pyfloat \<Rightarrow> pyfloat \<Rightarrow> CloudState" where
  "classify_cloud_state tsky_val clear_limit cloudy_limit =
     (if flt tsky_val clear_limit then CLEAR
      else if fgt tsky_val cloudy_limit then VERY_CLOUDY
      else CLOUDY)"

text \<open>The defaults of the keyword arguments, and the default coefficients
  (\<^verbatim>\<open>Skytemp\<close> in \<^verbatim>\<open>settings.py\<close>, \<^verbatim>\<open>_D\<close> in the command-line check).\<close>

definition default_clear_limit :: pyfloat where
  "default_clear_limit = Fin (- 17)"

definition default_cloudy_limit :: pyfloat where
  "default_cloudy_limit = Fin (- 8)"

definition Skytemp :: HasCoeffs where
  "Skytemp = \<lparr>K1 = Fin 33, K2 = Fin 0, K3 = Fin 0, K4 = Fin 0, K5 = Fin 0,
              K6 = Fin 140, K7 = Fin 40\<rparr>"

section \<open>Inputs and wordings used in the statements\<close>



text \<open>
  The specification's formula for the corrected temperature, in its words: \<open>sign\<close>
  returns -1, 0 or +1; \<open>term2\<close> is zero when \<^verbatim>\<open>K3 == 0\<close>, otherwise
  \<open>(K3/100) * exp(K4/1000 * ta) ^ (K5/100)\<close>, and zero when the exponential cannot be
  evaluated; \<open>t67\<close> is \<open>copysign(delta, K6)\<close> for \<open>delta < 1\<close> and
  \<open>(K6/10) * sign(ta - K2/10) * (log10(delta) + K7/100)\<close> otherwise; the result is
  \<open>ts - (term1 + term2 + t67)\<close>. It is a total function.
\<close>

definition spec_sign :: "pyfloat \<Rightarrow> pyfloat" where
  "spec_sign x = (if flt (Fin 0) x then Fin 1 else if flt x (Fin 0) then Fin (- 1) else Fin 0)"

definition spec_term2 :: "pyfloat \<Rightarrow> HasCoeffs \<Rightarrow> pyfloat" where
  "spec_term2 ta c =
     (if feq (K3 c) (Fin 0) then Fin 0
      else (case td_power ta c of Inl e \<Rightarrow> Fin 0 | Inr p \<Rightarrow> fmul (fdivc (K3 c) 100) p))"

definition spec_log10 :: "pyfloat \<Rightarrow> pyfloat" where
  "spec_log10 d = (case py_log10 d of Inl e \<Rightarrow> NaN | Inr lg \<Rightarrow> lg)"

definition spec_t67 :: "pyfloat \<Rightarrow> HasCoeffs \<Rightarrow> pyfloat" where
  "spec_t67 ta c =
     (let delta = fabs (fsub (fdivc (K2 c) 10) ta) in
      if flt delta (Fin 1) then copysign delta (K6 c)
      else fmul (fmul (fdivc (K6 c) 10) (spec_sign (fsub ta (fdivc (K2 c) 10))))
                (fadd (spec_log10 delta) (fdivc (K7 c) 100)))"

definition spec_correct :: "pyfloat \<Rightarrow> pyfloat \<Rightarrow> HasCoeffs \<Rightarrow> pyfloat" where
  "spec_correct ts ta c =
     fsub ts (fadd (fadd (fmul (fdivc (K1 c) 100) (fsub ta (fdivc (K2 c) 10))) (spec_term2 ta c))
                   (spec_t67 ta c))"

text \<open>Coefficient sets with the exponential term switched on (\<open>K3 \<noteq> 0\<close>): two with a
  negative \<open>K4\<close> and a negative \<open>K5\<close>, one with a large positive \<open>K4\<close>.\<close>

definition decaying_coeffs :: HasCoeffs where
  "decaying_coeffs = \<lparr>K1 = Fin 33, K2 = Fin 0, K3 = Fin 4, K4 = Fin (- 50000),
                      K5 = Fin (- 100), K6 = Fin 140, K7 = Fin 40\<rparr>"

definition bare_decaying_coeffs :: HasCoeffs where
  "bare_decaying_coeffs = \<lparr>K1 = Fin 0, K2 = Fin 0, K3 = Fin 1, K4 = Fin (- 2000),
                           K5 = Fin (- 100), K6 = Fin 0, K7 = Fin 0\<rparr>"


section \<open>Facts about rounding\<close>

lemmas round_eval = rnd_mag_def expo_def compute_floorlog pow2_def rhe_def Let_def
  rnd_def rnd_real_def mk_fin_def mk_inf_def lit_def

lemmas float_ops = fadd_def fsub_def fmul_def fdivc_def flt_def fgt_def fle_def feq_def
  truthy_def copysign_def

text \<open>The rounding on familiar values: \<^verbatim>\<open>0.1\<close>, a tie at \<open>2^53 + 1\<close>, the smallest
  subnormal and half of it, the largest float and the first real that overflows.\<close>

lemma binary64_tenth: "lit (1 / 10) = Fin (3602879701896397 / 36028797018963968)"
  by (simp add: round_eval)

lemma binary64_tie_to_even:
  "rnd_mag (2 ^ 53 + 1) = Some (2 ^ 53)" "rnd_mag (2 ^ 53 + 3) = Some (2 ^ 53 + 4)"
  by (simp_all add: round_eval)

lemma binary64_subnormal:
  "rnd_mag (1 / 2 ^ 1074) = Some (1 / 2 ^ 1074)" "rnd_mag (1 / 2 ^ 1075) = Some 0"
  by (simp_all add: round_eval)

lemma binary64_largest:
  "rnd_mag (2 ^ 1024 - 2 ^ 971) = Some (2 ^ 1024 - 2 ^ 971)" "rnd_mag (2 ^ 1024 - 2 ^ 970) = None"
  by (simp_all add: round_eval)

lemma rhe_small: "0 \<le> y \<Longrightarrow> y < 1/2 \<Longrightarrow> rhe y = 0"
proof -
  assume a: "0 \<le> y" "y < 1/2"
  then have f: "\<lfloor>y\<rfloor> = 0" by (simp add: floor_eq_iff)
  show ?thesis using a by (simp add: rhe_def f)
qed

lemma rhe_nonneg: "0 \<le> y \<Longrightarrow> 0 \<le> rhe y"
  by (auto simp: rhe_def Let_def)

lemma pow2_pos: "0 < pow2 k"
  by (simp add: pow2_def)

text \<open>The exponent is the binary exponent, and the rounded magnitude is a multiple of
  the spacing that lies within half a spacing of the real, a tie going to the even
  multiple: round to nearest, ties to even.\<close>

lemma expo_bounds:
  assumes "0 < m"
  shows "pow2 (expo m) \<le> m \<and> m < pow2 (expo m + 1)"
proof (cases "1 \<le> m")
  case True
  define n where "n = nat \<lfloor>m\<rfloor>"
  have n: "0 < n" using True by (simp add: n_def)
  have nm1: "real n \<le> m" using True by (simp add: n_def)
  have nm2: "m < real n + 1" using True by (simp add: n_def)
  from floorlog_bounds [of n 2] n
  have b: "2 ^ (floorlog 2 n - 1) \<le> n" "n < 2 ^ floorlog 2 n" by simp_all
  have fl: "0 < floorlog 2 n" using n floorlog_eq_zero_iff [of 2 n] by auto
  have e: "expo m = int (floorlog 2 n) - 1" using True by (simp add: expo_def n_def)
  have lo: "pow2 (expo m) = 2 ^ (floorlog 2 n - 1)"
    using fl by (simp add: e pow2_def nat_diff_distrib)
  have hi: "pow2 (expo m + 1) = 2 ^ floorlog 2 n"
    by (simp add: e pow2_def)
  have "(2::real) ^ (floorlog 2 n - 1) \<le> real n"
    using of_nat_mono [OF b(1), where ?'a = real] by simp
  then have 1: "pow2 (expo m) \<le> m" using nm1 unfolding lo by linarith
  have s: "n + 1 \<le> 2 ^ floorlog 2 n" using b(2) by simp
  have "real n + 1 \<le> (2::real) ^ floorlog 2 n"
    using of_nat_mono [OF s, where ?'a = real] by simp
  then have 2: "m < pow2 (expo m + 1)" using nm2 unfolding hi by linarith
  from 1 2 show ?thesis by simp
next
  case False
  then have m1: "m < 1" by simp
  define n where "n = nat \<lceil>1 / m\<rceil>"
  have y: "1 < 1 / m" using assms m1 by simp
  then have c2: "2 \<le> \<lceil>1 / m\<rceil>" by linarith
  then have n2: "2 \<le> n" unfolding n_def by linarith
  have ni: "real n = real_of_int \<lceil>1 / m\<rceil>" using c2 unfolding n_def by simp
  have up: "1 / m \<le> real n" unfolding ni by linarith
  have dn: "real n - 1 < 1 / m" unfolding ni by linarith
  define k where "k = floorlog 2 (n - 1)"
  have pos: "0 < n - 1" using n2 by simp
  from floorlog_bounds [of "n - 1" 2] pos
  have b: "2 ^ (k - 1) \<le> n - 1" "n - 1 < 2 ^ k" by (simp_all add: k_def)
  have k: "0 < k" using pos floorlog_eq_zero_iff [of 2 "n - 1"] by (auto simp: k_def)
  have e: "expo m = - int k" using False by (simp add: expo_def n_def k_def)
  have lo: "pow2 (expo m) = 1 / 2 ^ k"
    using k by (simp add: e pow2_def)
  have hi: "pow2 (expo m + 1) = 1 / 2 ^ (k - 1)"
  proof (cases "k = 1")
    case True
    then show ?thesis by (simp add: e pow2_def)
  next
    case False
    with k have "1 < k" by simp
    then have "nat (int k - 1) = k - 1" by simp
    with \<open>1 < k\<close> show ?thesis by (simp add: e pow2_def)
  qed
  have s: "n \<le> 2 ^ k" using b(2) by simp
  have "real n \<le> (2::real) ^ k"
    using of_nat_mono [OF s, where ?'a = real] by simp
  then have "1 / m \<le> 2 ^ k" using up by linarith
  then have 1: "1 / 2 ^ k \<le> m" using assms by (simp add: field_simps)
  have "(2::real) ^ (k - 1) \<le> real (n - 1)"
    using of_nat_mono [OF b(1), where ?'a = real] by simp
  then have "2 ^ (k - 1) \<le> real n - 1" using n2 by (simp add: of_nat_diff)
  then have "2 ^ (k - 1) < 1 / m" using dn by linarith
  then have 2: "m < 1 / 2 ^ (k - 1)" using assms by (simp add: field_simps)
  from 1 2 show ?thesis by (simp add: lo hi)
qed

lemma rhe_error: "\<bar>real_of_int (rhe y) - y\<bar> \<le> 1 / 2"
proof -
  have "real_of_int \<lfloor>y\<rfloor> \<le> y" "y < real_of_int \<lfloor>y\<rfloor> + 1" by linarith+
  then show ?thesis by (auto simp: rhe_def Let_def)
qed

lemma rhe_tie_even: "y - real_of_int \<lfloor>y\<rfloor> = 1 / 2 \<Longrightarrow> even (rhe y)"
  by (simp add: rhe_def Let_def)

lemma scaled_rhe_error:
  assumes "0 < q"
  shows "\<bar>real_of_int (rhe (m / q)) * q - m\<bar> \<le> q / 2"
proof -
  have "real_of_int (rhe (m / q)) * q - m = (real_of_int (rhe (m / q)) - m / q) * q"
    using assms by (simp add: field_simps)
  then have "\<bar>real_of_int (rhe (m / q)) * q - m\<bar> = \<bar>real_of_int (rhe (m / q)) - m / q\<bar> * q"
    using assms by (simp add: abs_mult)
  also have "\<dots> \<le> (1 / 2) * q"
    using rhe_error [of "m / q"] assms by (intro mult_right_mono) auto
  finally show ?thesis by simp
qed

lemma rnd_mag_nearest:
  assumes "rnd_mag m = Some r"
  shows "\<bar>r - m\<bar> \<le> (if m < 1 / 2 ^ 1022 then 1 / 2 ^ 1074 else pow2 (expo m - 52)) / 2"
proof (cases "m < 1 / 2 ^ 1022")
  case True
  define q :: real where "q = 1 / 2 ^ 1074"
  have qpos: "0 < q" by (simp add: q_def)
  have "r = real_of_int (rhe (m * 2 ^ 1074)) / 2 ^ 1074"
    using assms True by (simp add: rnd_mag_def)
  then have "r = real_of_int (rhe (m / q)) * q" by (simp add: q_def)
  with scaled_rhe_error [OF qpos, of m] have "\<bar>r - m\<bar> \<le> q / 2" by simp
  then show ?thesis unfolding q_def by (simp only: True if_True)
next
  case False
  have "r = real_of_int (rhe (m / pow2 (expo m - 52))) * pow2 (expo m - 52)"
    using assms False by (auto simp: rnd_mag_def Let_def split: if_splits)
  with scaled_rhe_error [OF pow2_pos, of m "expo m - 52"] False show ?thesis by simp
qed

lemma rnd_mag_underflow:
  assumes "0 \<le> m" and "m < 1 / 2 ^ 1075"
  shows "rnd_mag m = Some 0"
proof -
  have s: "(1::real) / 2 ^ 1075 < 1 / 2 ^ 1022"
    by (simp add: field_simps)
  have lt: "m < 1 / 2 ^ 1022" using assms(2) s by linarith
  have "m * 2 ^ 1074 < (1 / 2 ^ 1075) * 2 ^ 1074"
    using assms(2) by (simp add: mult_strict_right_mono)
  also have "\<dots> = 1 / 2" by simp
  finally have y: "m * 2 ^ 1074 < 1 / 2" .
  have y0: "0 \<le> m * 2 ^ 1074" using assms(1) by simp
  show ?thesis using lt rhe_small [OF y0 y] by (simp add: rnd_mag_def)
qed


lemma rnd_mag_nonneg: "0 \<le> m \<Longrightarrow> rnd_mag m = Some r \<Longrightarrow> 0 \<le> r"
proof -
  assume m: "0 \<le> m" and r: "rnd_mag m = Some r"
  have a: "0 \<le> real_of_int (rhe (m * 2 ^ 1074)) / 2 ^ 1074"
    using rhe_nonneg [of "m * 2 ^ 1074"] m by simp
  have "0 \<le> m / pow2 (expo m - 52)"
    using m pow2_pos [of "expo m - 52"] by simp
  then have "0 \<le> real_of_int (rhe (m / pow2 (expo m - 52)))"
    using rhe_nonneg by simp
  then have b: "0 \<le> real_of_int (rhe (m / pow2 (expo m - 52))) * pow2 (expo m - 52)"
    using pow2_pos [of "expo m - 52"] by simp
  show ?thesis
    using r a b unfolding rnd_mag_def Let_def by (auto split: if_splits)
qed

lemma rnd_is_zero: "\<not> truthy (rnd s m) \<Longrightarrow> rnd_mag m = Some 0"
  by (auto simp: rnd_def mk_fin_def mk_inf_def truthy_def split: option.splits if_splits)

lemma rnd_zero_fabs: "rnd_mag m = Some 0 \<Longrightarrow> fabs (rnd s m) = Fin 0"
  by (simp add: rnd_def mk_fin_def)

subsection \<open>The exponential at \<open>2000\<close> and at \<open>-2000\<close>\<close>

lemma two_le_exp_one: "(2::real) \<le> exp 1"
  using exp_ge_add_one_self [of "1::real"] by simp

lemma pow2_le_exp: "(2::real) ^ n \<le> exp (real n)"
proof (induction n)
  case 0
  show ?case by simp
next
  case (Suc n)
  have "(2::real) ^ Suc n = 2 ^ n * 2" by simp
  also have "\<dots> \<le> exp (real n) * exp 1"
    by (rule mult_mono) (use Suc two_le_exp_one in auto)
  also have "\<dots> = exp (real (Suc n))"
    by (simp add: exp_add [symmetric] add.commute)
  finally show ?case .
qed


lemma exp_minus_2000_underflows: "rnd_mag (exp (- 2000)) = Some 0"
proof -
  have "(2::real) ^ 1075 < 2 ^ 2000" by (rule power_strict_increasing) auto
  also have "\<dots> \<le> exp 2000" using pow2_le_exp [of 2000] by simp
  finally have "1 / exp 2000 < 1 / (2::real) ^ 1075"
    by (simp add: frac_less2)
  then have "exp (- 2000) < 1 / (2::real) ^ 1075"
    by (simp add: exp_minus field_simps)
  then show ?thesis by (intro rnd_mag_underflow) auto
qed

lemma py_exp_minus_2000: "py_exp (Fin (- 2000)) = Inr (Fin 0)"
  by (simp add: py_exp_def exp_minus_2000_underflows)


section \<open>Facts about the float operations\<close>





lemma fabs_range: "fabs x = NaN \<or> fabs x = PInf \<or> (\<exists>r. fabs x = Fin r \<and> 0 \<le> r)"
  by (cases x) auto

lemma flt_irrefl: "\<not> flt x x"
  by (auto simp: flt_def)


lemma flt_fle_trans: "flt a b \<Longrightarrow> fle b c \<Longrightarrow> flt a c"
  by (auto simp: flt_def fle_def)

lemma fle_flt_trans: "fle a b \<Longrightarrow> flt b c \<Longrightarrow> flt a c"
  by (auto simp: flt_def fle_def)

text \<open>\<^verbatim>\<open>x == 0\<close> and the truth value of \<open>x\<close> in a condition are opposite, also for NaN.\<close>

lemma feq_zero_falsy: "feq x (Fin 0) \<longleftrightarrow> \<not> truthy x"
  by (cases x) (auto simp: feq_def flt_def truthy_def)

lemma rnd_real_not_NaN: "rnd_real x \<noteq> NaN"
  by (simp add: rnd_real_def rnd_def mk_fin_def mk_inf_def split: option.splits)

lemma fsub_NaN_iff:
  "fsub a b = NaN \<longleftrightarrow>
     a = NaN \<or> b = NaN \<or> (a = PInf \<and> b = PInf) \<or> (a = NInf \<and> b = NInf)"
  using rnd_real_not_NaN by (cases a; cases b) (auto simp: fsub_def fadd_def)

lemma fabs_NaN_iff: "fabs x = NaN \<longleftrightarrow> x = NaN"
  by (cases x) auto

lemma fmul_NaN_right: "fmul x NaN = NaN"
  by (simp add: fmul_def)

lemma fadd_NaN_left: "fadd NaN x = NaN"
  by (simp add: fadd_def)

lemma py_log10_NaN: "py_log10 NaN = Inr NaN"
  by (simp add: py_log10_def)

text \<open>On a number that is not a zero, \<^verbatim>\<open>copysign(1, x)\<close> is the sign of \<open>x\<close>.\<close>

lemma copysign_one_sign:
  assumes "truthy x" and "x \<noteq> NaN"
  shows "copysign (Fin 1) x = spec_sign x"
  using assms by (cases x) (auto simp: copysign_def spec_sign_def flt_def truthy_def)

text \<open>When \<^verbatim>\<open>a - b\<close> is a zero, so is \<^verbatim>\<open>b - a\<close>: rounding is symmetric.\<close>

lemma fsub_zero_swap:
  assumes "\<not> truthy (fsub a b)"
  shows "fabs (fsub b a) = Fin 0"
proof -
  have fin: "is_finite a" "is_finite b"
    using assms by (cases a; cases b; auto simp: fsub_def fadd_def truthy_def split: if_splits)+
  show ?thesis
  proof (cases "fval a - fval b = 0")
    case True
    with fin show ?thesis
      by (cases a; cases b) (auto simp: fsub_def fadd_def)
  next
    case False
    have fa: "fsub a b = rnd_real (fval a - fval b)"
      using fin False by (cases a; cases b) (auto simp: fsub_def fadd_def)
    have fb: "fsub b a = rnd_real (fval b - fval a)"
      using fin False by (cases a; cases b) (auto simp: fsub_def fadd_def)
    have "rnd_mag \<bar>fval a - fval b\<bar> = Some 0"
      using assms rnd_is_zero unfolding fa rnd_real_def by blast
    moreover have "\<bar>fval b - fval a\<bar> = \<bar>fval a - fval b\<bar>" by simp
    ultimately have "rnd_mag \<bar>fval b - fval a\<bar> = Some 0" by simp
    from rnd_zero_fabs [OF this] show ?thesis by (simp add: fb rnd_real_def)
  qed
qed

subsection \<open>Which exceptions the library calls raise\<close>

lemma py_exp_range:
  assumes "py_exp x = Inr y"
  shows "y = NaN \<or> y = PInf \<or> (\<exists>r. y = Fin r \<and> 0 \<le> r)"
proof (cases "rnd_mag (exp (fval x))")
  case None
  with assms show ?thesis by (auto simp: py_exp_def split: if_splits)
next
  case (Some r)
  then have "0 \<le> r" using rnd_mag_nonneg [of "exp (fval x)" r] by simp
  with assms Some show ?thesis by (auto simp: py_exp_def split: if_splits)
qed

lemma py_exp_error: "py_exp x = Inl e \<Longrightarrow> e = OverflowError"
  by (auto simp: py_exp_def split: if_splits option.splits)

text \<open>On a base that \<^verbatim>\<open>math.exp\<close> returned, the power stays in the floats.\<close>

lemma py_pow_error:
  assumes "py_pow iv iw = Inl e" and "iv = NaN \<or> iv = PInf \<or> (\<exists>r. iv = Fin r \<and> 0 \<le> r)"
  shows "e = OverflowError \<or> e = ZeroDivisionError"
  using assms by (auto simp: py_pow_def split: if_splits option.splits)

lemma py_pow_ZeroDivisionError_iff:
  "py_pow iv iw = Inl ZeroDivisionError \<longleftrightarrow>
     is_finite iv \<and> fval iv = 0 \<and> is_finite iw \<and> fval iw < 0"
  by (cases iv; cases iw) (auto simp: py_pow_def split: option.splits)

lemma py_log10_total:
  assumes "\<not> flt d (Fin 1)" and "d = NaN \<or> d = PInf \<or> (\<exists>r. d = Fin r \<and> 0 \<le> r)"
  shows "\<exists>lg. py_log10 d = Inr lg"
  using assms by (auto simp: py_log10_def flt_def)

section \<open>Facts about the drift term\<close>

lemma td_power_error:
  assumes "td_power ta c = Inl e"
  shows "e = OverflowError \<or> e = ZeroDivisionError"
proof (cases "py_exp (fmul (fdivc (K4 c) 1000) ta)")
  case (Inl e')
  with assms py_exp_error show ?thesis by (auto simp: td_power_def)
next
  case (Inr ex)
  from py_exp_range [OF Inr] assms Inr show ?thesis
    using py_pow_error [of ex "fdivc (K5 c) 100" e] by (simp add: td_power_def)
qed

text \<open>The power raises ZeroDivisionError exactly when the exponential is a zero and
  \<^verbatim>\<open>K5 / 100.0\<close> is negative.\<close>

lemma td_power_ZeroDivisionError_iff:
  "td_power ta c = Inl ZeroDivisionError \<longleftrightarrow>
     (\<exists>z. py_exp (fmul (fdivc (K4 c) 1000) ta) = Inr z \<and> is_finite z \<and> fval z = 0
          \<and> is_finite (fdivc (K5 c) 100) \<and> fval (fdivc (K5 c) 100) < 0)"
proof (cases "py_exp (fmul (fdivc (K4 c) 1000) ta)")
  case (Inl e)
  with py_exp_error [OF Inl] show ?thesis by (simp add: td_power_def)
next
  case (Inr z)
  then show ?thesis by (simp add: td_power_def py_pow_ZeroDivisionError_iff)
qed

lemma td_term2_error:
  assumes "td_term2 ta c = Inl e"
  shows "e = ZeroDivisionError \<and> truthy (K3 c) \<and> td_power ta c = Inl ZeroDivisionError"
proof (cases "td_power ta c")
  case (Inl e')
  with td_power_error [OF Inl] assms show ?thesis
    by (auto simp: td_term2_def except_OverflowError_def split: if_splits)
next
  case (Inr p)
  with assms show ?thesis
    by (auto simp: td_term2_def except_OverflowError_def split: if_splits)
qed

text \<open>The logarithm is only taken of \<open>delta \<ge> 1\<close>, of infinity or of NaN: it never raises.\<close>

lemma td_t67_total: "\<exists>t67. td_t67 ta c = Inr t67"
proof (cases "flt (td_delta ta c) (Fin 1)")
  case True
  then show ?thesis by (simp add: td_t67_def)
next
  case False
  have "td_delta ta c = NaN \<or> td_delta ta c = PInf \<or> (\<exists>r. td_delta ta c = Fin r \<and> 0 \<le> r)"
    unfolding td_delta_def by (rule fabs_range)
  from py_log10_total [OF False this] obtain lg where "py_log10 (td_delta ta c) = Inr lg" ..
  with False show ?thesis by (simp add: td_t67_def)
qed

text \<open>In the far branch with a \<open>delta\<close> that is a number, \<^verbatim>\<open>ta - K2 / 10.0\<close> is not a
  zero, so \<^verbatim>\<open>copysign(1, ta - K2 / 10.0)\<close> is the sign of the difference.\<close>

lemma far_branch_difference_nonzero:
  assumes "\<not> flt (td_delta ta c) (Fin 1)" and "td_delta ta c \<noteq> NaN"
  shows "truthy (fsub ta (fdivc (K2 c) 10))"
proof (rule ccontr)
  assume "\<not> truthy (fsub ta (fdivc (K2 c) 10))"
  from fsub_zero_swap [OF this] have "td_delta ta c = Fin 0"
    by (simp add: td_delta_def)
  with assms(1) show False by (simp add: flt_def)
qed

text \<open>The code's \<open>t67\<close> and \<open>term2\<close> against the specification's.\<close>

lemma td_t67_spec: "td_t67 ta c = Inr (spec_t67 ta c)"
proof (cases "flt (td_delta ta c) (Fin 1)")
  case True
  then show ?thesis by (simp add: td_t67_def spec_t67_def td_delta_def)
next
  case False
  have "td_delta ta c = NaN \<or> td_delta ta c = PInf \<or> (\<exists>r. td_delta ta c = Fin r \<and> 0 \<le> r)"
    unfolding td_delta_def by (rule fabs_range)
  from py_log10_total [OF False this] obtain lg where lg: "py_log10 (td_delta ta c) = Inr lg" ..
  show ?thesis
  proof (cases "td_delta ta c = NaN")
    case True
    with False show ?thesis
      by (simp add: td_t67_def spec_t67_def td_delta_def py_log10_NaN spec_log10_def
          fadd_NaN_left fmul_NaN_right)
  next
    case n: False
    from far_branch_difference_nonzero [OF False n]
    have tr: "truthy (fsub ta (fdivc (K2 c) 10))" .
    have nn: "fsub ta (fdivc (K2 c) 10) \<noteq> NaN"
      using n by (auto simp: td_delta_def fabs_NaN_iff fsub_NaN_iff)
    from copysign_one_sign [OF tr nn] False lg show ?thesis
      by (simp add: td_t67_def spec_t67_def td_delta_def spec_log10_def)
  qed
qed

lemma td_term2_spec:
  "td_term2 ta c =
     (if truthy (K3 c) \<and> td_power ta c = Inl ZeroDivisionError then Inl ZeroDivisionError
      else Inr (spec_term2 ta c))"
proof (cases "td_power ta c")
  case (Inl e)
  with td_power_error [OF Inl] show ?thesis
    by (auto simp: td_term2_def spec_term2_def except_OverflowError_def feq_zero_falsy)
next
  case (Inr p)
  then show ?thesis
    by (simp add: td_term2_def spec_term2_def except_OverflowError_def feq_zero_falsy)
qed

text \<open>
  The call returns the specification's value, except where the power of a zero to a
  negative exponent raises.
\<close>

lemma tsky_refines_spec:
  "tsky ts ta c =
     (if truthy (K3 c) \<and> td_power ta c = Inl ZeroDivisionError then Inl ZeroDivisionError
      else Inr (spec_correct ts ta c))"
  by (simp add: tsky_def td_def td_term2_spec td_t67_spec td_term1_def spec_correct_def)

text \<open>
  The call raises in one case only, and then ZeroDivisionError: \<open>K3\<close> is not zero, the
  exponential is a zero and \<^verbatim>\<open>K5 / 100.0\<close> is negative. In every other case it returns
  a float.
\<close>

lemma tsky_error_iff:
  "tsky ts ta c = Inl e \<longleftrightarrow>
     e = ZeroDivisionError \<and> truthy (K3 c) \<and> td_power ta c = Inl ZeroDivisionError"
proof -
  obtain t67 where t: "td_t67 ta c = Inr t67" using td_t67_total by blast
  show ?thesis
  proof (cases "td_term2 ta c")
    case (Inl e')
    from td_term2_error [OF Inl] Inl t show ?thesis
      by (auto simp: tsky_def td_def)
  next
    case (Inr t2)
    then have "\<not> (truthy (K3 c) \<and> td_power ta c = Inl ZeroDivisionError)"
      by (auto simp: td_term2_def except_OverflowError_def)
    with Inr t show ?thesis by (auto simp: tsky_def td_def)
  qed
qed

subsection \<open>The drift term of the default coefficients at 10 and at 0 degrees\<close>

lemma td_default_10: "td (Fin 10) Skytemp = Inr (Fin (3222888483337011 / 140737488355328))"
proof -
  have a: "td_term1 (Fin 10) Skytemp = Fin (7430939385161319 / 2251799813685248)"
    by (simp add: td_term1_def Skytemp_def float_ops round_eval)
  have b: "td_term2 (Fin 10) Skytemp = Inr (Fin 0)"
    by (simp add: td_term2_def Skytemp_def truthy_def)
  have c: "td_t67 (Fin 10) Skytemp = Inr (Fin (5516909543528857 / 281474976710656))"
    by (simp add: td_t67_def td_delta_def py_log10_def Skytemp_def float_ops round_eval)
  show ?thesis by (simp add: td_def a b c float_ops round_eval)
qed

lemma td_default_0: "td (Fin 0) Skytemp = Inr (Fin 0)"
proof -
  have a: "td_term1 (Fin 0) Skytemp = Fin 0"
    by (simp add: td_term1_def Skytemp_def float_ops round_eval)
  have b: "td_term2 (Fin 0) Skytemp = Inr (Fin 0)"
    by (simp add: td_term2_def Skytemp_def truthy_def)
  have c: "td_t67 (Fin 0) Skytemp = Inr (Fin 0)"
    by (simp add: td_t67_def td_delta_def Skytemp_def float_ops round_eval)
  show ?thesis by (simp add: td_def a b c float_ops)
qed

lemma decaying_power: "td_power (Fin 40) decaying_coeffs = Inl ZeroDivisionError"
proof -
  have a: "fmul (fdivc (Fin (- 50000)) 1000) (Fin 40) = Fin (- 2000)"
    by (simp add: float_ops round_eval)
  have b: "fdivc (Fin (- 100)) 100 = Fin (- 1)"
    by (simp add: float_ops round_eval)
  show ?thesis
    by (simp add: td_power_def decaying_coeffs_def a b py_exp_minus_2000 py_pow_def)
qed

lemma bare_decaying_power: "td_power (Fin 1000) bare_decaying_coeffs = Inl ZeroDivisionError"
proof -
  have a: "fmul (fdivc (Fin (- 2000)) 1000) (Fin 1000) = Fin (- 2000)"
    by (simp add: float_ops round_eval)
  have b: "fdivc (Fin (- 100)) 100 = Fin (- 1)"
    by (simp add: float_ops round_eval)
  show ?thesis
    by (simp add: td_power_def bare_decaying_coeffs_def a b py_exp_minus_2000 py_pow_def)
qed


section \<open>The claims\<close>

text \<open>
  Claim C1: for every raw sky temperature, ambient temperature and coefficient set,
  \<^verbatim>\<open>tsky\<close> returns \<open>ts\<close> minus the drift term \<open>term1 + term2 + t67\<close>.
  By \<open>tsky_refines_spec\<close> the call returns exactly that value wherever it returns
  (by \<open>far_branch_difference_nonzero\<close> the factor \<^verbatim>\<open>copysign(1, ta - K2 / 10.0)\<close>
  is the sign of the difference). But it does not return for every input. With
  \<open>ts = -30\<close>, \<open>ta = 40\<close> and the coefficients \<open>K3 = 4\<close>, \<open>K4 = -50000\<close>, \<open>K5 = -100\<close>
  (the others at their defaults), \<^verbatim>\<open>math.exp(-2000.0)\<close> underflows to \<^verbatim>\<open>0.0\<close> and
  \<^verbatim>\<open>0.0 ** -1.0\<close> raises ZeroDivisionError, which \<^verbatim>\<open>except OverflowError\<close> does not
  catch: the call raises and there is no result.
\<close>

theorem tsky_underflow_no_result:
  "tsky (Fin (- 30)) (Fin 40) decaying_coeffs = Inl ZeroDivisionError"
proof -
  have "truthy (K3 decaying_coeffs)" by (simp add: decaying_coeffs_def truthy_def)
  with decaying_power show ?thesis by (simp add: tsky_error_iff)
qed

text \<open>
  Claim C2: \<^verbatim>\<open>classify_cloud_state\<close> returns CLEAR iff \<open>t < clear_limit\<close>, VERY_CLOUDY
  iff \<open>t\<close> is not below \<open>clear_limit\<close> and \<open>t > cloudy_limit\<close>, and CLOUDY otherwise; both
  limits themselves are classified CLOUDY. The three bands are as claimed for all
  limits. The limits are classified CLOUDY unless \<open>cloudy_limit < clear_limit\<close>: the
  function does not check the order of its limits, and for a pair given in the wrong
  order \<open>clear_limit\<close> is VERY_CLOUDY and \<open>cloudy_limit\<close> is CLEAR.
\<close>

theorem classify_bands:
  "(classify_cloud_state t clear_limit cloudy_limit = CLEAR \<longleftrightarrow> flt t clear_limit)
   \<and> (classify_cloud_state t clear_limit cloudy_limit = VERY_CLOUDY
        \<longleftrightarrow> \<not> flt t clear_limit \<and> fgt t cloudy_limit)
   \<and> (classify_cloud_state t clear_limit cloudy_limit = CLOUDY
        \<longleftrightarrow> \<not> flt t clear_limit \<and> \<not> fgt t cloudy_limit)
   \<and> (\<not> flt cloudy_limit clear_limit \<longrightarrow>
        classify_cloud_state clear_limit clear_limit cloudy_limit = CLOUDY
        \<and> classify_cloud_state cloudy_limit clear_limit cloudy_limit = CLOUDY)"
  using flt_irrefl by (simp add: classify_cloud_state_def fgt_def)

theorem classify_bands_witness:
  "\<not> flt default_cloudy_limit default_clear_limit
   \<and> classify_cloud_state (Fin (- 25 / 2)) default_clear_limit default_cloudy_limit = CLOUDY
   \<and> classify_cloud_state default_clear_limit default_clear_limit default_cloudy_limit = CLOUDY
   \<and> classify_cloud_state default_cloudy_limit default_clear_limit default_cloudy_limit = CLOUDY"
proof -
  have h: "\<not> flt default_cloudy_limit default_clear_limit"
    by (simp add: flt_def default_cloudy_limit_def default_clear_limit_def)
  have "\<not> flt (Fin (- 25 / 2)) default_clear_limit \<and> \<not> fgt (Fin (- 25 / 2)) default_cloudy_limit"
    by (simp add: flt_def fgt_def default_cloudy_limit_def default_clear_limit_def)
  with classify_bands [of "Fin (- 25 / 2)" default_clear_limit default_cloudy_limit] h
  show ?thesis by simp
qed

text \<open>The default limits, given in the wrong order.\<close>

theorem classify_inverted_limits_counterexample:
  "classify_cloud_state (Fin (- 8)) (Fin (- 8)) (Fin (- 17)) = VERY_CLOUDY
   \<and> classify_cloud_state (Fin (- 8)) (Fin (- 8)) (Fin (- 17)) \<noteq> CLOUDY
   \<and> classify_cloud_state (Fin (- 17)) (Fin (- 8)) (Fin (- 17)) = CLEAR
   \<and> classify_cloud_state (Fin (- 17)) (Fin (- 8)) (Fin (- 17)) \<noteq> CLOUDY"
  by (simp add: classify_cloud_state_def flt_def fgt_def)

text \<open>
  Claim C3: \<^verbatim>\<open>tsky\<close> is total: for all floats and coefficients it returns a float
  and never raises. By \<open>tsky_error_iff\<close> it returns a float unless \<open>K3\<close> is not zero, the
  exponential is a zero and \<^verbatim>\<open>K5 / 100.0\<close> is negative; there it raises
  ZeroDivisionError, which the handler for OverflowError lets through. With \<open>ts = 0\<close>,
  \<open>ta = 1000\<close> and \<open>K3 = 1\<close>, \<open>K4 = -2000\<close>, \<open>K5 = -100\<close> (the other coefficients zero) the
  exponential is \<^verbatim>\<open>math.exp(-2000.0) = 0.0\<close> and the power is \<^verbatim>\<open>0.0 ** -1.0\<close>.
\<close>

theorem tsky_raises_ZeroDivisionError:
  "tsky (Fin 0) (Fin 1000) bare_decaying_coeffs = Inl ZeroDivisionError"
proof -
  have "truthy (K3 bare_decaying_coeffs)" by (simp add: bare_decaying_coeffs_def truthy_def)
  with bare_decaying_power show ?thesis by (simp add: tsky_error_iff)
qed



text \<open>
  Claim C5: \<^verbatim>\<open>classify_cloud_state\<close> is monotonic: for fixed limits and
  \<open>t1 <= t2\<close>, the state of \<open>t1\<close> is at most the state of \<open>t2\<close> in the order
  CLEAR (0) < CLOUDY (1) < VERY_CLOUDY (2). This holds for all limits, also for a pair
  in the wrong order, for infinities and for NaN limits.
\<close>

theorem classify_monotonic:
  assumes "fle t1 t2"
  shows "state_value (classify_cloud_state t1 clear_limit cloudy_limit)
         \<le> state_value (classify_cloud_state t2 clear_limit cloudy_limit)"
  using assms flt_fle_trans [of cloudy_limit t1 t2] fle_flt_trans [of t1 t2 clear_limit]
  by (auto simp: classify_cloud_state_def fgt_def)

theorem classify_monotonic_witness:
  "fle (Fin (- 20)) (Fin (- 5))
   \<and> state_value (classify_cloud_state (Fin (- 20)) default_clear_limit default_cloudy_limit) = 0
   \<and> state_value (classify_cloud_state (Fin (- 5)) default_clear_limit default_cloudy_limit) = 2
   \<and> state_value (classify_cloud_state (Fin (- 20)) default_clear_limit default_cloudy_limit)
      \<le> state_value (classify_cloud_state (Fin (- 5)) default_clear_limit default_cloudy_limit)"
proof -
  have h: "fle (Fin (- 20)) (Fin (- 5))" by (simp add: fle_def flt_def)
  from classify_monotonic [OF h, of default_clear_limit default_cloudy_limit] h show ?thesis
    by (simp add: classify_cloud_state_def flt_def fgt_def default_clear_limit_def
        default_cloudy_limit_def)
qed




text \<open>
  Claim C7: for every \<open>ts\<close>, \<open>ta\<close> and coefficient set with \<^verbatim>\<open>K3 == 0\<close>, \<open>term2\<close> is
  exactly zero whatever \<open>K4\<close> and \<open>K5\<close> are, and two coefficient sets that agree on \<open>K1\<close>,
  \<open>K2\<close>, \<open>K6\<close>, \<open>K7\<close> and both have \<^verbatim>\<open>K3 == 0\<close> give the same result.
\<close>

theorem term2_zero_when_K3_zero:
  assumes "feq (K3 c) (Fin 0)" and "feq (K3 c') (Fin 0)"
    and "K1 c' = K1 c" and "K2 c' = K2 c" and "K6 c' = K6 c" and "K7 c' = K7 c"
  shows "td_term2 ta c = Inr (Fin 0)
       \<and> (\<exists>t67. td_t67 ta c = Inr t67
            \<and> tsky ts ta c = Inr (fsub ts (fadd (fadd (td_term1 ta c) (Fin 0)) t67)))
       \<and> tsky ts ta c' = tsky ts ta c"
proof -
  have t2: "td_term2 ta c = Inr (Fin 0)" "td_term2 ta c' = Inr (Fin 0)"
    using feq_zero_falsy assms(1,2) by (simp_all add: td_term2_def)
  obtain t67 where t: "td_t67 ta c = Inr t67" using td_t67_total by blast
  have t': "td_t67 ta c' = td_t67 ta c"
    using assms by (simp add: td_t67_def td_delta_def Let_def split: sum.splits)
  have t1: "td_term1 ta c' = td_term1 ta c"
    using assms by (simp add: td_term1_def)
  show ?thesis by (simp add: tsky_def td_def t2 t t' t1)
qed

text \<open>The default coefficients, and the same with \<open>K3 = -0.0\<close>, \<open>K4 = 100\<close>, \<open>K5 = 100\<close>.\<close>

theorem term2_zero_when_K3_zero_witness:
  "feq (K3 Skytemp) (Fin 0)
   \<and> feq (K3 (Skytemp\<lparr>K3 := NegZero, K4 := Fin 100, K5 := Fin 100\<rparr>)) (Fin 0)
   \<and> td_term2 (Fin 10) Skytemp = Inr (Fin 0)
   \<and> tsky (Fin (- 30)) (Fin 10) (Skytemp\<lparr>K3 := NegZero, K4 := Fin 100, K5 := Fin 100\<rparr>)
      = tsky (Fin (- 30)) (Fin 10) Skytemp"
proof -
  have h1: "feq (K3 Skytemp) (Fin 0)" by (simp add: Skytemp_def feq_def flt_def)
  have h2: "feq (K3 (Skytemp\<lparr>K3 := NegZero, K4 := Fin 100, K5 := Fin 100\<rparr>)) (Fin 0)"
    by (simp add: feq_def flt_def)
  from term2_zero_when_K3_zero [OF h1 h2, of "Fin 10" "Fin (- 30)"] h1 h2 show ?thesis by simp
qed




text \<open>
  Claim C9: with the default coefficients and the default limits,
  \<^verbatim>\<open>tsky(-30, 10)\<close> is \<^verbatim>\<open>-52.9\<close> and is classified CLEAR, and \<^verbatim>\<open>tsky(-5, 0)\<close> is
  \<^verbatim>\<open>-5\<close> and is classified VERY_CLOUDY. The first result is the float that the
  literal \<^verbatim>\<open>-52.9\<close> denotes, bit for bit: the roundings of \<^verbatim>\<open>0.33 * 10\<close>,
  \<^verbatim>\<open>14 * 1.4\<close> and of the sum cancel.
\<close>

theorem concrete_cases:
  "tsky (Fin (- 30)) (Fin 10) Skytemp = Inr (lit (- 529 / 10))
   \<and> classify_cloud_state (lit (- 529 / 10)) default_clear_limit default_cloudy_limit = CLEAR
   \<and> tsky (Fin (- 5)) (Fin 0) Skytemp = Inr (Fin (- 5))
   \<and> classify_cloud_state (Fin (- 5)) default_clear_limit default_cloudy_limit = VERY_CLOUDY"
proof -
  have l: "lit (- 529 / 10) = Fin (- 7445013133996851 / 140737488355328)"
    by (simp add: round_eval)
  have a: "tsky (Fin (- 30)) (Fin 10) Skytemp = Inr (lit (- 529 / 10))"
    unfolding l by (simp add: tsky_def td_default_10 float_ops round_eval)
  have b: "classify_cloud_state (lit (- 529 / 10)) default_clear_limit default_cloudy_limit = CLEAR"
    unfolding l by (simp add: classify_cloud_state_def default_clear_limit_def flt_def)
  have c: "tsky (Fin (- 5)) (Fin 0) Skytemp = Inr (Fin (- 5))"
    by (simp add: tsky_def td_default_0 float_ops round_eval)
  have d: "classify_cloud_state (Fin (- 5)) default_clear_limit default_cloudy_limit = VERY_CLOUDY"
    by (simp add: classify_cloud_state_def default_clear_limit_def default_cloudy_limit_def
        flt_def fgt_def)
  from a b c d show ?thesis by blast
qed

text \<open>
  Claim C10: for every pair of limits, a NaN is classified CLOUDY: both comparisons
  are false for NaN, and the last branch is taken.
\<close>

theorem classify_NaN: "classify_cloud_state NaN clear_limit cloudy_limit = CLOUDY"
  by (simp add: classify_cloud_state_def flt_def fgt_def)

end
